theory Spec2Isabelle
  imports Main "HOL-Library.AList" "HOL-Library.Word"
begin

section \<open>Errors and \<open>autoCatch\<close>\<close>

datatype error = IOError | TypeError | SyntaxError | Thrown string

text \<open>
  A promise either rejects with a reason (\<open>Inl\<close>) or resolves to its content (\<open>Inr\<close>).
  \<open>Thrown\<close> is a reason a callback threw, named by a string; the storage code never looks
  into a reason.
\<close>

datatype 'a Result = Success 'a | Failure error

fun autoCatch :: "error + 'a \<Rightarrow> 'a Result" where
  "autoCatch (Inr content) = Success content"
| "autoCatch (Inl reason) = Failure reason"

fun success :: "'a Result \<Rightarrow> bool" where
  "success (Success _) = True"
| "success (Failure _) = False"

section \<open>Values of the JavaScript runtime\<close>

text \<open>
  The storage classes are generic over the stored value. The values a caller can hand to
  them are modelled by a datatype: \<open>undefined\<close>, \<open>null\<close>, booleans, numbers, strings,
  arrays and plain objects.
  \<^item> A number is \<open>NaN\<close> or an integer \<open>n\<close> with \<open>-2^53 \<le> n < 2^53\<close>, held as a 54-bit
    word read as a signed integer: these are integers that a double holds exactly and
    that JavaScript prints in plain decimal. Other numbers are outside the model.
  \<^item> A string is a list of characters that survives a UTF-8 write and read unchanged.
  \<^item> An array has its elements only; a plain object lists its own properties, has
    \<open>Object.prototype\<close> as its prototype and holds no function.
  Functions, symbols, big integers and cyclic structures are outside the model.
\<close>

datatype jsval =
    JUndefined
  | JNull
  | JBool bool
  | JNum "54 word"
  | JNaN
  | JStr string
  | JArr "jsval list"
  | JObj "(string \<times> jsval) list"

text \<open>\<open>!!v\<close>: the falsy values are \<open>undefined\<close>, \<open>null\<close>, \<open>false\<close>, \<open>0\<close>, \<open>NaN\<close> and \<open>""\<close>.\<close>

fun truthy :: "jsval \<Rightarrow> bool" where
  "truthy JUndefined = False"
| "truthy JNull = False"
| "truthy (JBool b) = b"
| "truthy (JNum n) = (n \<noteq> 0)"
| "truthy JNaN = False"
| "truthy (JStr s) = (s \<noteq> [])"
| "truthy (JArr _) = True"
| "truthy (JObj _) = True"

text \<open>
  \<open>a === b\<close> where \<open>b\<close> is the value just stored and \<open>a\<close> the value read back from the
  same place: the two are the same primitive or the same reference, and \<open>===\<close> answers
  true unless the value is \<open>NaN\<close>. A comparison with \<open>undefined\<close> is written with \<open>=\<close>.
\<close>

definition strict_equals :: "jsval \<Rightarrow> jsval \<Rightarrow> bool" where
  "strict_equals a b = (a = b \<and> a \<noteq> JNaN)"

text \<open>\<open>a ?? b\<close>: the right operand replaces a left operand that is \<open>null\<close> or \<open>undefined\<close>.\<close>

definition nullish_coalesce :: "jsval \<Rightarrow> jsval \<Rightarrow> jsval" where
  "nullish_coalesce a b = (if a = JUndefined \<or> a = JNull then b else a)"

function show_nat :: "nat \<Rightarrow> string" where
  "show_nat n =
     (if n < 10 then [''0123456789'' ! n]
      else show_nat (n div 10) @ [''0123456789'' ! (n mod 10)])"
  by pat_completeness auto
termination
  by (relation "measure (\<lambda>n. n)") auto

declare show_nat.simps [simp del]

definition show_int :: "int \<Rightarrow> string" where
  "show_int i = (if i < 0 then CHR ''-'' # show_nat (nat (- i)) else show_nat (nat i))"

fun join :: "string \<Rightarrow> string list \<Rightarrow> string" where
  "join sep [] = []"
| "join sep [x] = x"
| "join sep (x # y # ys) = x @ sep @ join sep (y # ys)"

text \<open>
  The template literal \<open>`${data}`\<close>: the string conversion of a value, which can throw.
  \<^item> An array joins the conversions of its elements with commas, in order, \<open>null\<close> and
    \<open>undefined\<close> elements printing as nothing; an element whose conversion throws makes
    the array's conversion throw.
  \<^item> A plain object is converted by its \<open>toString\<close> method, then its \<open>valueOf\<close>. Without
    an own property \<open>toString\<close> the inherited method answers \<open>[object Object]\<close>. An own
    property \<open>toString\<close> holds no function here, so it is passed over, the inherited
    \<open>valueOf\<close> answers the object itself (an own \<open>valueOf\<close> is passed over likewise), and
    the conversion throws a \<open>TypeError\<close>.
\<close>

fun to_string :: "jsval \<Rightarrow> error + string"
  and elements_to_strings :: "jsval list \<Rightarrow> error + string list" where
  "to_string JUndefined = Inr ''undefined''"
| "to_string JNull = Inr ''null''"
| "to_string (JBool b) = Inr (if b then ''true'' else ''false'')"
| "to_string (JNum n) = Inr (show_int (sint n))"
| "to_string JNaN = Inr ''NaN''"
| "to_string (JStr s) = Inr s"
| "to_string (JArr xs) =
     (case elements_to_strings xs of Inl e \<Rightarrow> Inl e | Inr ss \<Rightarrow> Inr (join '','' ss))"
| "to_string (JObj props) =
     (if ''toString'' \<in> set (map fst props) then Inl TypeError else Inr ''[object Object]'')"
| "elements_to_strings [] = Inr []"
| "elements_to_strings (x # xs) =
     (case (if x = JUndefined \<or> x = JNull then Inr [] else to_string x) of
        Inl e \<Rightarrow> Inl e
      | Inr s \<Rightarrow>
          (case elements_to_strings xs of Inl e \<Rightarrow> Inl e | Inr ss \<Rightarrow> Inr (s # ss)))"

text \<open>
  \<open>JSON.stringify\<close> and \<open>JSON.parse\<close> belong to the runtime, not to the repository; the
  storage code is modelled over any pair of them. \<open>JSON_stringify\<close> answers \<open>Inl\<close> where
  JavaScript throws and \<open>Inr None\<close> where it answers \<open>undefined\<close> (as for the value
  \<open>undefined\<close>); \<open>JSON_parse\<close> answers \<open>None\<close> where JavaScript throws a \<open>SyntaxError\<close>.
\<close>

record runtime =
  JSON_stringify :: "jsval \<Rightarrow> error + string option"
  JSON_parse :: "string \<Rightarrow> jsval option"

section \<open>Request settings\<close>

text \<open>Every field of \<open>RequestSettings\<close> is optional: \<open>None\<close> is a field left out.\<close>

record RequestSettings =
  deny_read :: "bool option"
  deny_write :: "bool option"
  data_type :: "string option"
  ignore_cache :: "bool option"
  ignore_files :: "bool option"

definition DEFAULT_DATA_ROOT :: string where
  "DEFAULT_DATA_ROOT = ''data''"

definition DEFAULT_REQUEST_SETTINGS :: RequestSettings where
  "DEFAULT_REQUEST_SETTINGS =
     \<lparr> deny_read = Some False, deny_write = Some False, data_type = Some ''json'',
       ignore_cache = Some False, ignore_files = Some False \<rparr>"

text \<open>
  A parameter \<open>settings = DEFAULT_REQUEST_SETTINGS\<close>: the default stands in for an
  argument that is left out.
\<close>

fun or_default :: "RequestSettings option \<Rightarrow> RequestSettings" where
  "or_default None = DEFAULT_REQUEST_SETTINGS"
| "or_default (Some settings) = settings"

text \<open>The truth value of an optional flag, as in \<open>if (settings.deny_read)\<close> and
  \<open>settings.ignore_cache ?? false\<close>.\<close>

fun flag :: "bool option \<Rightarrow> bool" where
  "flag None = False"
| "flag (Some b) = b"

section \<open>Key and path normalisation\<close>

definition startsWith :: "string \<Rightarrow> string \<Rightarrow> bool" where
  "startsWith s p = (take (length p) s = p)"

definition endsWith :: "string \<Rightarrow> string \<Rightarrow> bool" where
  "endsWith s p = (length p \<le> length s \<and> drop (length s - length p) s = p)"

text \<open>\<open>raw.replace(/\\/g, "/")\<close>\<close>

definition replace_backslashes :: "string \<Rightarrow> string" where
  "replace_backslashes raw = map (\<lambda>c. if c = CHR 0x5C then CHR ''/'' else c) raw"

fun lastIndexOf_from :: "char \<Rightarrow> string \<Rightarrow> int \<Rightarrow> int \<Rightarrow> int" where
  "lastIndexOf_from c [] i found = found"
| "lastIndexOf_from c (x # xs) i found =
     lastIndexOf_from c xs (i + 1) (if x = c then i else found)"

definition lastIndexOf :: "string \<Rightarrow> char \<Rightarrow> int" where
  "lastIndexOf s c = lastIndexOf_from c s 0 (- 1)"

text \<open>\<open>s.slice(0, e)\<close>: a negative end counts from the end of the string.\<close>

definition slice_to :: "string \<Rightarrow> int \<Rightarrow> string" where
  "slice_to s e = take (nat (if e < 0 then int (length s) + e else e)) s"

definition into_dir_path :: "string \<Rightarrow> string option \<Rightarrow> string" where
  "into_dir_path raw0 root_arg =
     (let root = (case root_arg of None \<Rightarrow> DEFAULT_DATA_ROOT | Some r \<Rightarrow> r);
          raw1 = replace_backslashes raw0;
          raw2 = (if startsWith raw1 ''/'' then drop 1 raw1 else raw1);
          raw3 = (if \<not> endsWith raw2 ''/'' then raw2 @ ''/'' else raw2)
      in root @ ''/'' @ raw3)"

definition into_file_path :: "string \<Rightarrow> string option \<Rightarrow> string option \<Rightarrow> string" where
  "into_file_path raw0 ext_arg root_arg =
     (let ext = (case ext_arg of None \<Rightarrow> the (data_type DEFAULT_REQUEST_SETTINGS) | Some e \<Rightarrow> e);
          root = (case root_arg of None \<Rightarrow> DEFAULT_DATA_ROOT | Some r \<Rightarrow> r);
          raw1 = replace_backslashes raw0;
          raw2 = (if startsWith raw1 ''/'' then drop 1 raw1 else raw1);
          raw3 = (if \<not> endsWith raw2 (''.'' @ ext) then raw2 @ ''.'' @ ext else raw2)
      in root @ ''/'' @ raw3)"

section \<open>The in-memory store\<close>

text \<open>
  \<open>CacheStorage\<close> owns one \<open>Map\<close>. A JavaScript \<open>Map\<close> keeps its entries in insertion
  order, a \<open>set\<close> on a present key keeps the key's position, and \<open>delete\<close> answers
  whether an entry was removed: an association list with distinct keys, updated by
  \<open>AList.update\<close> and \<open>AList.delete\<close>.
\<close>

type_synonym cache = "(string \<times> jsval) list"

definition Map_has :: "cache \<Rightarrow> string \<Rightarrow> bool" where
  "Map_has m key = (map_of m key \<noteq> None)"

definition Map_get :: "cache \<Rightarrow> string \<Rightarrow> jsval" where
  "Map_get m key = (case map_of m key of None \<Rightarrow> JUndefined | Some v \<Rightarrow> v)"

definition Map_set :: "cache \<Rightarrow> string \<Rightarrow> jsval \<Rightarrow> cache" where
  "Map_set m key data = AList.update key data m"

definition Map_delete :: "cache \<Rightarrow> string \<Rightarrow> bool \<times> cache" where
  "Map_delete m key = (Map_has m key, AList.delete key m)"

definition CacheStorage_pairs ::
  "string \<Rightarrow> RequestSettings option \<Rightarrow> cache \<Rightarrow> (string \<times> jsval) list" where
  "CacheStorage_pairs dir settings_arg storage =
     (let settings = or_default settings_arg
      in if flag (ignore_cache settings) \<or> flag (deny_read settings) then []
         else map (\<lambda>(k, v). (k, v)) (filter (\<lambda>(k, _). startsWith k dir) storage))"

definition CacheStorage_has :: "string \<Rightarrow> RequestSettings option \<Rightarrow> cache \<Rightarrow> bool" where
  "CacheStorage_has key settings_arg storage =
     (let settings = or_default settings_arg
      in if flag (ignore_cache settings) then False
         else Map_has storage key)"

definition CacheStorage_get :: "string \<Rightarrow> RequestSettings option \<Rightarrow> cache \<Rightarrow> jsval" where
  "CacheStorage_get key settings_arg storage =
     (let settings = or_default settings_arg
      in if flag (ignore_cache settings) \<or> flag (deny_read settings) then JUndefined
         else Map_get storage key)"

definition CacheStorage_set ::
  "string \<Rightarrow> jsval \<Rightarrow> RequestSettings option \<Rightarrow> cache \<Rightarrow> bool \<times> cache" where
  "CacheStorage_set key data settings_arg storage =
     (let settings = or_default settings_arg
      in if flag (ignore_cache settings) \<or> flag (deny_write settings) then (False, storage)
         else (let storage' = Map_set storage key data
               in (strict_equals (Map_get storage' key) data, storage')))"

definition CacheStorage_del ::
  "string \<Rightarrow> RequestSettings option \<Rightarrow> cache \<Rightarrow> bool \<times> cache" where
  "CacheStorage_del key settings_arg storage =
     (let settings = or_default settings_arg
      in if flag (ignore_cache settings) \<or> flag (deny_write settings) then (False, storage)
         else Map_delete storage key)"

section \<open>The file system\<close>

text \<open>
  The file system is the state behind \<open>fs/promises\<close>. A path is resolved to its list of
  segments (empty segments, as in \<open>a//b\<close> or a trailing slash, are dropped; \<open>.\<close> and
  \<open>..\<close> segments are outside the model), and the state lists every node, a plain file
  with its content or a directory, in directory-listing order. The empty list of
  segments is the working directory. An operation fails for the reasons written out
  below and for no other: permissions and device faults are outside the model. The
  order of a real directory listing is the file system's own; the statements below
  that list a directory list one that holds a single plain file.
\<close>

datatype node = File string | Directory

type_synonym filesystem = "(string list \<times> node) list"

fun segments :: "string \<Rightarrow> string \<Rightarrow> string list" where
  "segments acc [] = (if acc = [] then [] else [acc])"
| "segments acc (c # cs) =
     (if c = CHR ''/'' then (if acc = [] then segments [] cs else acc # segments [] cs)
      else segments (acc @ [c]) cs)"

definition resolve :: "string \<Rightarrow> string list" where
  "resolve path = segments [] path"

definition is_directory :: "filesystem \<Rightarrow> string list \<Rightarrow> bool" where
  "is_directory fs p = (p = [] \<or> map_of fs p = Some Directory)"

text \<open>\<open>FS.readFile(path)\<close> and \<open>FS.readFile(path, "utf8")\<close>\<close>

definition FS_readFile :: "string \<Rightarrow> filesystem \<Rightarrow> error + string" where
  "FS_readFile path fs =
     (case map_of fs (resolve path) of
        Some (File content) \<Rightarrow> Inr content
      | Some Directory \<Rightarrow> Inl IOError
      | None \<Rightarrow> Inl IOError)"

text \<open>
  \<open>FS.mkdir(path, { recursive: true })\<close> creates the directory and every missing ancestor;
  it rejects when one of them is a plain file.
\<close>

fun mkdirs :: "string list list \<Rightarrow> filesystem \<Rightarrow> filesystem option" where
  "mkdirs [] fs = Some fs"
| "mkdirs (d # ds) fs =
     (case map_of fs d of
        Some (File _) \<Rightarrow> None
      | Some Directory \<Rightarrow> mkdirs ds fs
      | None \<Rightarrow> mkdirs ds (fs @ [(d, Directory)]))"

definition ancestors :: "string list \<Rightarrow> string list list" where
  "ancestors p = map (\<lambda>n. take n p) [1..<Suc (length p)]"

definition FS_mkdir :: "string \<Rightarrow> filesystem \<Rightarrow> (error + unit) \<times> filesystem" where
  "FS_mkdir path fs =
     (case mkdirs (ancestors (resolve path)) fs of
        None \<Rightarrow> (Inl IOError, fs)
      | Some fs' \<Rightarrow> (Inr (), fs'))"

text \<open>
  \<open>FS.writeFile(path, data, "utf8")\<close> rejects with a \<open>TypeError\<close> when the data is
  \<open>undefined\<close>, and with an I/O error when the path is a directory or its parent is not
  one; otherwise it creates or overwrites the file.
\<close>

definition FS_writeFile ::
  "string \<Rightarrow> string option \<Rightarrow> filesystem \<Rightarrow> (error + unit) \<times> filesystem" where
  "FS_writeFile path data fs =
     (case data of
        None \<Rightarrow> (Inl TypeError, fs)
      | Some raw \<Rightarrow>
          (let p = resolve path
           in if is_directory fs p then (Inl IOError, fs)
              else if is_directory fs (butlast p) then (Inr (), AList.update p (File raw) fs)
              else (Inl IOError, fs)))"

text \<open>\<open>FS.rm(path)\<close> removes a plain file; it rejects on a missing path and on a directory.\<close>

definition FS_rm :: "string \<Rightarrow> filesystem \<Rightarrow> (error + unit) \<times> filesystem" where
  "FS_rm path fs =
     (let p = resolve path
      in case map_of fs p of
           Some (File _) \<Rightarrow> (Inr (), AList.delete p fs)
         | Some Directory \<Rightarrow> (Inl IOError, fs)
         | None \<Rightarrow> (Inl IOError, fs))"

record Dirent =
  name :: string
  isFile :: bool

fun is_file :: "node \<Rightarrow> bool" where
  "is_file (File _) = True"
| "is_file Directory = False"

text \<open>\<open>FS.readdir(path, { withFileTypes: true })\<close>: the entries directly under a directory.\<close>

definition FS_readdir :: "string \<Rightarrow> filesystem \<Rightarrow> error + Dirent list" where
  "FS_readdir path fs =
     (let d = resolve path
      in if \<not> is_directory fs d then Inl IOError
         else Inr (map (\<lambda>(p, n). \<lparr> name = last p, isFile = is_file n \<rparr>)
                    (filter (\<lambda>(p, n). p \<noteq> [] \<and> butlast p = d) fs)))"

section \<open>The file-system store\<close>

text \<open>
  An asynchronous method is a function of the state it runs in: it answers a rejection
  (\<open>Inl\<close>) or its result (\<open>Inr\<close>), and the state it leaves. \<open>FileStorage\<close> keeps no
  state of its own; its state is the file system.
\<close>

type_synonym ('a, 'st) async = "'st \<Rightarrow> (error + 'a) \<times> 'st"

definition FileStorage_has ::
  "string \<Rightarrow> RequestSettings option \<Rightarrow> (bool, filesystem) async" where
  "FileStorage_has key settings_arg fs =
     (let settings = or_default settings_arg
      in if flag (ignore_files settings) \<or> flag (deny_read settings) then (Inr False, fs)
         else (let path = into_file_path key (data_type settings) None
               in (Inr (success (autoCatch (FS_readFile path fs))), fs)))"

definition FileStorage_get ::
  "runtime \<Rightarrow> string \<Rightarrow> RequestSettings option \<Rightarrow> (jsval, filesystem) async" where
  "FileStorage_get rt key settings_arg fs =
     (let settings = or_default settings_arg
      in if flag (ignore_files settings) \<or> flag (deny_read settings) then (Inr JUndefined, fs)
         else (let path = into_file_path key (data_type settings) None
               in case autoCatch (FS_readFile path fs) of
                    Failure _ \<Rightarrow> (Inr JUndefined, fs)
                  | Success content \<Rightarrow>
                      (if data_type settings = Some ''json''
                       then (case JSON_parse rt content of
                               None \<Rightarrow> (Inl SyntaxError, fs)
                             | Some v \<Rightarrow> (Inr v, fs))
                       else (Inr (JStr content), fs))))"

text \<open>
  In \<open>FileStorage.set\<close> the text to write is computed outside \<open>autoCatch\<close>: where
  \<open>JSON.stringify\<close> or the template literal throws, \<open>set\<close> rejects before the file
  system is touched.
\<close>

definition FileStorage_set ::
  "runtime \<Rightarrow> string \<Rightarrow> jsval \<Rightarrow> RequestSettings option \<Rightarrow> (bool, filesystem) async" where
  "FileStorage_set rt key data settings_arg fs =
     (let settings = or_default settings_arg
      in if flag (ignore_files settings) \<or> flag (deny_write settings) then (Inr False, fs)
         else (let path = into_file_path key (data_type settings) None
               in case (if data_type settings = Some ''json'' then JSON_stringify rt data
                        else map_sum id Some (to_string data)) of
                    Inl e \<Rightarrow> (Inl e, fs)
                  | Inr raw \<Rightarrow>
                      (let fs1 = snd (FS_mkdir (slice_to path (lastIndexOf path CHR ''/'')) fs);
                           written = FS_writeFile path raw fs1
                       in (Inr (success (autoCatch (fst written))), snd written))))"

definition FileStorage_del ::
  "string \<Rightarrow> RequestSettings option \<Rightarrow> (bool, filesystem) async" where
  "FileStorage_del key settings_arg fs =
     (let settings = or_default settings_arg
      in if flag (ignore_files settings) \<or> flag (deny_write settings) then (Inr False, fs)
         else (let path = into_file_path key (data_type settings) None;
                   removed = FS_rm path fs
               in (Inr (success (autoCatch (fst removed))), snd removed)))"

text \<open>The loop of \<open>FileStorage.pairs\<close> over the directory entries, \<open>output\<close> accumulating.\<close>

fun FileStorage_pairs_loop ::
  "runtime \<Rightarrow> string \<Rightarrow> RequestSettings \<Rightarrow> Dirent list \<Rightarrow> (string \<times> jsval) list \<Rightarrow>
     ((string \<times> jsval) list, filesystem) async" where
  "FileStorage_pairs_loop rt path settings [] output fs = (Inr output, fs)"
| "FileStorage_pairs_loop rt path settings (dirent # rest) output fs =
     (if isFile dirent
      then (let key = path @ name dirent
            in case FileStorage_get rt key (Some settings) fs of
                 (Inl e, fs') \<Rightarrow> (Inl e, fs')
               | (Inr val, fs') \<Rightarrow>
                   FileStorage_pairs_loop rt path settings rest (output @ [(key, val)]) fs')
      else FileStorage_pairs_loop rt path settings rest output fs)"

definition FileStorage_pairs ::
  "runtime \<Rightarrow> string \<Rightarrow> RequestSettings option \<Rightarrow> ((string \<times> jsval) list, filesystem) async" where
  "FileStorage_pairs rt dir settings_arg fs =
     (let settings = or_default settings_arg
      in if flag (ignore_files settings) \<or> flag (deny_read settings) then (Inr [], fs)
         else (let path = into_dir_path dir (Some DEFAULT_DATA_ROOT)
               in case autoCatch (FS_readdir path fs) of
                    Failure _ \<Rightarrow> (Inr [], fs)
                  | Success content \<Rightarrow> FileStorage_pairs_loop rt path settings content [] fs))"

section \<open>The dual store\<close>

record dual =
  dual_cache :: cache
  dual_files :: filesystem

text \<open>
  \<open>[...new Set([...a, ...b])]\<close>: the elements are arrays \<open>[key, value]\<close>, each allocated
  by the call that produced it, and a \<open>Set\<close> compares arrays by reference. An element is
  modelled with the address it was allocated at; the \<open>Set\<close> keeps the first element of
  each address, in insertion order.
\<close>

definition allocate :: "'a list \<Rightarrow> (nat \<times> 'a) list" where
  "allocate xs = zip [0..<length xs] xs"

fun Set_add :: "(nat \<times> 'a) list \<Rightarrow> nat \<times> 'a \<Rightarrow> (nat \<times> 'a) list" where
  "Set_add elems x = (if fst x \<in> set (map fst elems) then elems else elems @ [x])"

definition spread_Set :: "(nat \<times> 'a) list \<Rightarrow> 'a list" where
  "spread_Set xs = map snd (foldl Set_add [] xs)"

definition DualStorage_pairs ::
  "runtime \<Rightarrow> string \<Rightarrow> RequestSettings option \<Rightarrow> ((string \<times> jsval) list, dual) async" where
  "DualStorage_pairs rt dir settings_arg st =
     (let settings = or_default settings_arg;
          from_cache = CacheStorage_pairs dir (Some settings) (dual_cache st)
      in case FileStorage_pairs rt dir (Some settings) (dual_files st) of
           (Inl e, fs') \<Rightarrow> (Inl e, st\<lparr>dual_files := fs'\<rparr>)
         | (Inr from_files, fs') \<Rightarrow>
             (Inr (spread_Set (allocate (from_cache @ from_files))), st\<lparr>dual_files := fs'\<rparr>))"

definition DualStorage_has ::
  "string \<Rightarrow> RequestSettings option \<Rightarrow> (bool, dual) async" where
  "DualStorage_has key settings_arg st =
     (let settings = or_default settings_arg
      in if CacheStorage_has key (Some settings) (dual_cache st) then (Inr True, st)
         else (case FileStorage_has key (Some settings) (dual_files st) of
                 (r, fs') \<Rightarrow> (r, st\<lparr>dual_files := fs'\<rparr>)))"

definition DualStorage_get ::
  "runtime \<Rightarrow> string \<Rightarrow> RequestSettings option \<Rightarrow> (jsval, dual) async" where
  "DualStorage_get rt key settings_arg st =
     (let settings = or_default settings_arg;
          cache = CacheStorage_get key (Some settings) (dual_cache st)
      in case (if cache = JUndefined then FileStorage_get rt key (Some settings) (dual_files st)
               else (Inr JUndefined, dual_files st)) of
           (Inl e, fs') \<Rightarrow> (Inl e, st\<lparr>dual_files := fs'\<rparr>)
         | (Inr files, fs') \<Rightarrow>
             (let cache' = (if cache = JUndefined \<and> files \<noteq> JUndefined
                            then snd (CacheStorage_set key files (Some settings) (dual_cache st))
                            else dual_cache st)
              in (Inr (nullish_coalesce cache files),
                  \<lparr> dual_cache = cache', dual_files = fs' \<rparr>)))"

definition DualStorage_set ::
  "runtime \<Rightarrow> string \<Rightarrow> jsval \<Rightarrow> RequestSettings option \<Rightarrow> (bool, dual) async" where
  "DualStorage_set rt key data settings_arg st =
     (let settings = or_default settings_arg;
          cache_set = CacheStorage_set key data (Some settings) (dual_cache st);
          cache = (fst cache_set \<or> flag (ignore_cache settings))
      in case FileStorage_set rt key data (Some settings) (dual_files st) of
           (Inl e, fs') \<Rightarrow> (Inl e, \<lparr> dual_cache = snd cache_set, dual_files = fs' \<rparr>)
         | (Inr files_set, fs') \<Rightarrow>
             (let files = (files_set \<or> flag (ignore_files settings))
              in (Inr (cache \<and> files), \<lparr> dual_cache = snd cache_set, dual_files = fs' \<rparr>)))"

definition DualStorage_del ::
  "string \<Rightarrow> RequestSettings option \<Rightarrow> (bool, dual) async" where
  "DualStorage_del key settings_arg st =
     (let settings = or_default settings_arg;
          cache_del = CacheStorage_del key (Some settings) (dual_cache st);
          cache = (fst cache_del \<or> flag (ignore_cache settings))
      in case FileStorage_del key (Some settings) (dual_files st) of
           (Inl e, fs') \<Rightarrow> (Inl e, \<lparr> dual_cache = snd cache_del, dual_files = fs' \<rparr>)
         | (Inr files_del, fs') \<Rightarrow>
             (let files = (files_del \<or> flag (ignore_files settings))
              in (Inr (cache \<and> files), \<lparr> dual_cache = snd cache_del, dual_files = fs' \<rparr>)))"

section \<open>The generic query layer\<close>

text \<open>
  The abstract classes \<open>SyncStorage\<close> and \<open>AsyncStorage\<close> derive the batch operations
  from the five abstract methods. An instance is the record of its five methods over
  the state it owns. A callback receives the value, the key and the storage it was
  called from: it runs in the state and may change it or reject.
\<close>

type_synonym ('a, 'st) callback = "jsval \<Rightarrow> string \<Rightarrow> ('a, 'st) async"

text \<open>\<open>for (const x of xs) result &&= await f(x)\<close>: once \<open>result\<close> is false, \<open>f\<close> is not
  called again. Likewise \<open>result ||= await f(x)\<close> once \<open>result\<close> is true.\<close>

fun and_assign_loop :: "('a \<Rightarrow> (bool, 'st) async) \<Rightarrow> 'a list \<Rightarrow> bool \<Rightarrow> (bool, 'st) async" where
  "and_assign_loop f [] result st = (Inr result, st)"
| "and_assign_loop f (x # xs) result st =
     (if result
      then (case f x st of
              (Inl e, st') \<Rightarrow> (Inl e, st')
            | (Inr b, st') \<Rightarrow> and_assign_loop f xs b st')
      else and_assign_loop f xs result st)"

fun or_assign_loop :: "('a \<Rightarrow> (bool, 'st) async) \<Rightarrow> 'a list \<Rightarrow> bool \<Rightarrow> (bool, 'st) async" where
  "or_assign_loop f [] result st = (Inr result, st)"
| "or_assign_loop f (x # xs) result st =
     (if result then or_assign_loop f xs result st
      else (case f x st of
              (Inl e, st') \<Rightarrow> (Inl e, st')
            | (Inr b, st') \<Rightarrow> or_assign_loop f xs b st'))"

subsection \<open>\<open>SyncStorage\<close>\<close>

record 'st SyncStorage =
  sync_pairs :: "string \<Rightarrow> RequestSettings option \<Rightarrow> 'st \<Rightarrow> (string \<times> jsval) list"
  sync_has :: "string \<Rightarrow> RequestSettings option \<Rightarrow> 'st \<Rightarrow> bool"
  sync_get :: "string \<Rightarrow> RequestSettings option \<Rightarrow> 'st \<Rightarrow> jsval"
  sync_set :: "string \<Rightarrow> jsval \<Rightarrow> RequestSettings option \<Rightarrow> 'st \<Rightarrow> bool \<times> 'st"
  sync_del :: "string \<Rightarrow> RequestSettings option \<Rightarrow> 'st \<Rightarrow> bool \<times> 'st"

text \<open>\<open>xs.every(f)\<close> with a callback that changes the state: it stops at the first false.\<close>

fun every_loop :: "('a \<Rightarrow> 'st \<Rightarrow> bool \<times> 'st) \<Rightarrow> 'a list \<Rightarrow> 'st \<Rightarrow> bool \<times> 'st" where
  "every_loop f [] st = (True, st)"
| "every_loop f (x # xs) st =
     (case f x st of
        (True, st') \<Rightarrow> every_loop f xs st'
      | (False, st') \<Rightarrow> (False, st'))"

definition SyncStorage_has_all ::
  "'st SyncStorage \<Rightarrow> string list \<Rightarrow> RequestSettings option \<Rightarrow> 'st \<Rightarrow> bool" where
  "SyncStorage_has_all this keys settings_arg st =
     (let settings = or_default settings_arg
      in list_all (\<lambda>key. sync_has this key (Some settings) st) keys)"

definition SyncStorage_has_any ::
  "'st SyncStorage \<Rightarrow> string list \<Rightarrow> RequestSettings option \<Rightarrow> 'st \<Rightarrow> bool" where
  "SyncStorage_has_any this keys settings_arg st =
     (let settings = or_default settings_arg
      in list_ex (\<lambda>key. sync_has this key (Some settings) st) keys)"

definition SyncStorage_get_all ::
  "'st SyncStorage \<Rightarrow> string list \<Rightarrow> RequestSettings option \<Rightarrow> 'st \<Rightarrow> jsval list" where
  "SyncStorage_get_all this keys settings_arg st =
     (let settings = or_default settings_arg
      in map (\<lambda>v. v)
           (filter (\<lambda>v. truthy v)
              (map (\<lambda>key. sync_get this key (Some settings) st) keys)))"

definition SyncStorage_set_all ::
  "'st SyncStorage \<Rightarrow> (string \<times> jsval) list \<Rightarrow> RequestSettings option \<Rightarrow> 'st \<Rightarrow> bool \<times> 'st" where
  "SyncStorage_set_all this pairs settings_arg st =
     (let settings = or_default settings_arg
      in every_loop (\<lambda>(key, val). sync_set this key val (Some settings)) pairs st)"

definition SyncStorage_del_all ::
  "'st SyncStorage \<Rightarrow> string list \<Rightarrow> RequestSettings option \<Rightarrow> 'st \<Rightarrow> bool \<times> 'st" where
  "SyncStorage_del_all this keys settings_arg st =
     (let settings = or_default settings_arg
      in every_loop (\<lambda>key. sync_del this key (Some settings)) keys st)"

definition SyncStorage_assert ::
  "'st SyncStorage \<Rightarrow> string \<Rightarrow> (bool, 'st) callback \<Rightarrow> RequestSettings option \<Rightarrow> (bool, 'st) async" where
  "SyncStorage_assert this key callback settings_arg st =
     (let settings = or_default settings_arg
      in if sync_has this key (Some settings) st
         then callback (sync_get this key (Some settings) st) key st
         else (Inr False, st))"

definition SyncStorage_assert_all ::
  "'st SyncStorage \<Rightarrow> string list \<Rightarrow> (bool, 'st) callback \<Rightarrow> RequestSettings option \<Rightarrow>
     (bool, 'st) async" where
  "SyncStorage_assert_all this keys callback settings_arg st =
     (let settings = or_default settings_arg
      in and_assign_loop (\<lambda>key. SyncStorage_assert this key callback (Some settings)) keys True st)"

definition SyncStorage_assert_any ::
  "'st SyncStorage \<Rightarrow> string list \<Rightarrow> (bool, 'st) callback \<Rightarrow> RequestSettings option \<Rightarrow>
     (bool, 'st) async" where
  "SyncStorage_assert_any this keys callback settings_arg st =
     (let settings = or_default settings_arg
      in or_assign_loop (\<lambda>key. SyncStorage_assert this key callback (Some settings)) keys False st)"

text \<open>\<open>modify\<close> hands the callback's result to \<open>this.set(key, ...)\<close> with no settings.\<close>

definition SyncStorage_modify ::
  "'st SyncStorage \<Rightarrow> string \<Rightarrow> (jsval, 'st) callback \<Rightarrow> RequestSettings option \<Rightarrow>
     (bool, 'st) async" where
  "SyncStorage_modify this key callback settings_arg st =
     (let settings = or_default settings_arg
      in if sync_has this key (Some settings) st
         then (case callback (sync_get this key (Some settings) st) key st of
                 (Inl e, st') \<Rightarrow> (Inl e, st')
               | (Inr data, st') \<Rightarrow>
                   (case sync_set this key data None st' of (b, st'') \<Rightarrow> (Inr b, st'')))
         else (Inr False, st))"

definition SyncStorage_modify_all ::
  "'st SyncStorage \<Rightarrow> string list \<Rightarrow> (jsval, 'st) callback \<Rightarrow> RequestSettings option \<Rightarrow>
     (bool, 'st) async" where
  "SyncStorage_modify_all this keys callback settings_arg st =
     (let settings = or_default settings_arg
      in and_assign_loop (\<lambda>key. SyncStorage_modify this key callback (Some settings)) keys True st)"

subsection \<open>\<open>AsyncStorage\<close>\<close>

record 'st AsyncStorage =
  async_pairs :: "string \<Rightarrow> RequestSettings option \<Rightarrow> ((string \<times> jsval) list, 'st) async"
  async_has :: "string \<Rightarrow> RequestSettings option \<Rightarrow> (bool, 'st) async"
  async_get :: "string \<Rightarrow> RequestSettings option \<Rightarrow> (jsval, 'st) async"
  async_set :: "string \<Rightarrow> jsval \<Rightarrow> RequestSettings option \<Rightarrow> (bool, 'st) async"
  async_del :: "string \<Rightarrow> RequestSettings option \<Rightarrow> (bool, 'st) async"

definition AsyncStorage_has_all ::
  "'st AsyncStorage \<Rightarrow> string list \<Rightarrow> RequestSettings option \<Rightarrow> (bool, 'st) async" where
  "AsyncStorage_has_all this keys settings_arg st =
     (let settings = or_default settings_arg
      in and_assign_loop (\<lambda>key. async_has this key (Some settings)) keys True st)"

definition AsyncStorage_has_any ::
  "'st AsyncStorage \<Rightarrow> string list \<Rightarrow> RequestSettings option \<Rightarrow> (bool, 'st) async" where
  "AsyncStorage_has_any this keys settings_arg st =
     (let settings = or_default settings_arg
      in or_assign_loop (\<lambda>key. async_has this key (Some settings)) keys False st)"

fun AsyncStorage_get_all_loop ::
  "'st AsyncStorage \<Rightarrow> RequestSettings \<Rightarrow> string list \<Rightarrow> jsval list \<Rightarrow> (jsval list, 'st) async" where
  "AsyncStorage_get_all_loop this settings [] result st = (Inr result, st)"
| "AsyncStorage_get_all_loop this settings (key # keys) result st =
     (case async_get this key (Some settings) st of
        (Inl e, st') \<Rightarrow> (Inl e, st')
      | (Inr val, st') \<Rightarrow>
          AsyncStorage_get_all_loop this settings keys
            (if truthy val then result @ [val] else result) st')"

definition AsyncStorage_get_all ::
  "'st AsyncStorage \<Rightarrow> string list \<Rightarrow> RequestSettings option \<Rightarrow> (jsval list, 'st) async" where
  "AsyncStorage_get_all this keys settings_arg st =
     (let settings = or_default settings_arg
      in AsyncStorage_get_all_loop this settings keys [] st)"

definition AsyncStorage_set_all ::
  "'st AsyncStorage \<Rightarrow> (string \<times> jsval) list \<Rightarrow> RequestSettings option \<Rightarrow> (bool, 'st) async" where
  "AsyncStorage_set_all this pairs settings_arg st =
     (let settings = or_default settings_arg
      in and_assign_loop (\<lambda>(key, val). async_set this key val (Some settings)) pairs True st)"

definition AsyncStorage_del_all ::
  "'st AsyncStorage \<Rightarrow> string list \<Rightarrow> RequestSettings option \<Rightarrow> (bool, 'st) async" where
  "AsyncStorage_del_all this keys settings_arg st =
     (let settings = or_default settings_arg
      in and_assign_loop (\<lambda>key. async_del this key (Some settings)) keys True st)"

definition AsyncStorage_assert ::
  "'st AsyncStorage \<Rightarrow> string \<Rightarrow> (bool, 'st) callback \<Rightarrow> RequestSettings option \<Rightarrow>
     (bool, 'st) async" where
  "AsyncStorage_assert this key callback settings_arg st =
     (let settings = or_default settings_arg
      in case async_has this key (Some settings) st of
           (Inl e, st1) \<Rightarrow> (Inl e, st1)
         | (Inr False, st1) \<Rightarrow> (Inr False, st1)
         | (Inr True, st1) \<Rightarrow>
             (case async_get this key (Some settings) st1 of
                (Inl e, st2) \<Rightarrow> (Inl e, st2)
              | (Inr data, st2) \<Rightarrow> callback data key st2))"

definition AsyncStorage_assert_all ::
  "'st AsyncStorage \<Rightarrow> string list \<Rightarrow> (bool, 'st) callback \<Rightarrow> RequestSettings option \<Rightarrow>
     (bool, 'st) async" where
  "AsyncStorage_assert_all this keys callback settings_arg st =
     (let settings = or_default settings_arg
      in and_assign_loop (\<lambda>key. AsyncStorage_assert this key callback (Some settings)) keys True st)"

definition AsyncStorage_assert_any ::
  "'st AsyncStorage \<Rightarrow> string list \<Rightarrow> (bool, 'st) callback \<Rightarrow> RequestSettings option \<Rightarrow>
     (bool, 'st) async" where
  "AsyncStorage_assert_any this keys callback settings_arg st =
     (let settings = or_default settings_arg
      in or_assign_loop (\<lambda>key. AsyncStorage_assert this key callback (Some settings)) keys False st)"

definition AsyncStorage_modify ::
  "'st AsyncStorage \<Rightarrow> string \<Rightarrow> (jsval, 'st) callback \<Rightarrow> RequestSettings option \<Rightarrow>
     (bool, 'st) async" where
  "AsyncStorage_modify this key callback settings_arg st =
     (let settings = or_default settings_arg
      in case async_has this key (Some settings) st of
           (Inl e, st1) \<Rightarrow> (Inl e, st1)
         | (Inr False, st1) \<Rightarrow> (Inr False, st1)
         | (Inr True, st1) \<Rightarrow>
             (case async_get this key (Some settings) st1 of
                (Inl e, st2) \<Rightarrow> (Inl e, st2)
              | (Inr data, st2) \<Rightarrow>
                  (case callback data key st2 of
                     (Inl e, st3) \<Rightarrow> (Inl e, st3)
                   | (Inr data', st3) \<Rightarrow> async_set this key data' None st3)))"

definition AsyncStorage_modify_all ::
  "'st AsyncStorage \<Rightarrow> string list \<Rightarrow> (jsval, 'st) callback \<Rightarrow> RequestSettings option \<Rightarrow>
     (bool, 'st) async" where
  "AsyncStorage_modify_all this keys callback settings_arg st =
     (let settings = or_default settings_arg
      in and_assign_loop (\<lambda>key. AsyncStorage_modify this key callback (Some settings)) keys True st)"

subsection \<open>The three backends\<close>

definition CacheStorage :: "cache SyncStorage" where
  "CacheStorage =
     \<lparr> sync_pairs = CacheStorage_pairs, sync_has = CacheStorage_has, sync_get = CacheStorage_get,
       sync_set = CacheStorage_set, sync_del = CacheStorage_del \<rparr>"

definition FileStorage :: "runtime \<Rightarrow> filesystem AsyncStorage" where
  "FileStorage rt =
     \<lparr> async_pairs = FileStorage_pairs rt, async_has = FileStorage_has,
       async_get = FileStorage_get rt, async_set = FileStorage_set rt,
       async_del = FileStorage_del \<rparr>"

definition DualStorage :: "runtime \<Rightarrow> dual AsyncStorage" where
  "DualStorage rt =
     \<lparr> async_pairs = DualStorage_pairs rt, async_has = DualStorage_has,
       async_get = DualStorage_get rt, async_set = DualStorage_set rt,
       async_del = DualStorage_del \<rparr>"

section \<open>A runtime for the examples\<close>

text \<open>
  The examples below run in a runtime whose JSON functions are JavaScript's on \<open>null\<close>,
  the booleans, the integers \<open>0\<close>, \<open>1\<close> and \<open>2\<close>, on \<open>NaN\<close>, which \<open>JSON.stringify\<close>
  writes as \<open>null\<close>, and on \<open>undefined\<close>, which it maps to \<open>undefined\<close>; every example
  that reaches them stays within these values.
\<close>

definition example_runtime :: runtime where
  "example_runtime =
     \<lparr> JSON_stringify =
         (\<lambda>v. if v = JNull then Inr (Some ''null'')
              else if v = JNaN then Inr (Some ''null'')
              else if v = JBool True then Inr (Some ''true'')
              else if v = JBool False then Inr (Some ''false'')
              else if v = JNum 0 then Inr (Some ''0'')
              else if v = JNum 1 then Inr (Some ''1'')
              else if v = JNum 2 then Inr (Some ''2'')
              else Inr None),
       JSON_parse =
         (\<lambda>s. if s = ''null'' then Some JNull
              else if s = ''true'' then Some (JBool True)
              else if s = ''false'' then Some (JBool False)
              else if s = ''0'' then Some (JNum 0)
              else if s = ''1'' then Some (JNum 1)
              else if s = ''2'' then Some (JNum 2)
              else None) \<rparr>"

definition deny_read_settings :: RequestSettings where
  "deny_read_settings = DEFAULT_REQUEST_SETTINGS\<lparr> deny_read := Some True \<rparr>"

definition deny_write_settings :: RequestSettings where
  "deny_write_settings = DEFAULT_REQUEST_SETTINGS\<lparr> deny_write := Some True \<rparr>"



definition txt_settings :: RequestSettings where
  "txt_settings = DEFAULT_REQUEST_SETTINGS\<lparr> data_type := Some ''txt'' \<rparr>"

section \<open>Batch operations on an empty list of keys\<close>

lemma sync_batch_empty:
  "SyncStorage_has_all this [] s st = True"
  "SyncStorage_has_any this [] s st = False"
  "SyncStorage_set_all this [] s st = (True, st)"
  "SyncStorage_del_all this [] s st = (True, st)"
  "SyncStorage_assert_all this [] p s st = (Inr True, st)"
  "SyncStorage_assert_any this [] p s st = (Inr False, st)"
  "SyncStorage_modify_all this [] m s st = (Inr True, st)"
  by (simp_all add: SyncStorage_has_all_def SyncStorage_has_any_def SyncStorage_set_all_def
      SyncStorage_del_all_def SyncStorage_assert_all_def SyncStorage_assert_any_def
      SyncStorage_modify_all_def)

lemma async_batch_empty:
  "AsyncStorage_has_all this [] s st = (Inr True, st)"
  "AsyncStorage_has_any this [] s st = (Inr False, st)"
  "AsyncStorage_set_all this [] s st = (Inr True, st)"
  "AsyncStorage_del_all this [] s st = (Inr True, st)"
  "AsyncStorage_assert_all this [] p s st = (Inr True, st)"
  "AsyncStorage_assert_any this [] p s st = (Inr False, st)"
  "AsyncStorage_modify_all this [] m s st = (Inr True, st)"
  by (simp_all add: AsyncStorage_has_all_def AsyncStorage_has_any_def AsyncStorage_set_all_def
      AsyncStorage_del_all_def AsyncStorage_assert_all_def AsyncStorage_assert_any_def
      AsyncStorage_modify_all_def)

text \<open>
  Claim C10. On every backend and with any settings (left out, or given with any of the
  deny and ignore flags), a batch operation over no keys answers its vacuous result and
  leaves the state as it was: \<open>has_all\<close>, \<open>set_all\<close>, \<open>del_all\<close>, \<open>assert_all\<close> and
  \<open>modify_all\<close> answer true, \<open>has_any\<close> and \<open>assert_any\<close> answer false.
\<close>

theorem batch_operations_without_keys:
  "(SyncStorage_has_all CacheStorage [] s c = True
    \<and> SyncStorage_set_all CacheStorage [] s c = (True, c)
    \<and> SyncStorage_del_all CacheStorage [] s c = (True, c)
    \<and> SyncStorage_assert_all CacheStorage [] pc s c = (Inr True, c)
    \<and> SyncStorage_modify_all CacheStorage [] mc s c = (Inr True, c)
    \<and> SyncStorage_has_any CacheStorage [] s c = False
    \<and> SyncStorage_assert_any CacheStorage [] pc s c = (Inr False, c))
   \<and> (AsyncStorage_has_all (FileStorage rt) [] s fs = (Inr True, fs)
    \<and> AsyncStorage_set_all (FileStorage rt) [] s fs = (Inr True, fs)
    \<and> AsyncStorage_del_all (FileStorage rt) [] s fs = (Inr True, fs)
    \<and> AsyncStorage_assert_all (FileStorage rt) [] pf s fs = (Inr True, fs)
    \<and> AsyncStorage_modify_all (FileStorage rt) [] mf s fs = (Inr True, fs)
    \<and> AsyncStorage_has_any (FileStorage rt) [] s fs = (Inr False, fs)
    \<and> AsyncStorage_assert_any (FileStorage rt) [] pf s fs = (Inr False, fs))
   \<and> (AsyncStorage_has_all (DualStorage rt) [] s d = (Inr True, d)
    \<and> AsyncStorage_set_all (DualStorage rt) [] s d = (Inr True, d)
    \<and> AsyncStorage_del_all (DualStorage rt) [] s d = (Inr True, d)
    \<and> AsyncStorage_assert_all (DualStorage rt) [] pd s d = (Inr True, d)
    \<and> AsyncStorage_modify_all (DualStorage rt) [] md s d = (Inr True, d)
    \<and> AsyncStorage_has_any (DualStorage rt) [] s d = (Inr False, d)
    \<and> AsyncStorage_assert_any (DualStorage rt) [] pd s d = (Inr False, d))"
  by (simp only: sync_batch_empty async_batch_empty simp_thms)

section \<open>Helper facts about the primitives\<close>

lemma FileStorage_get_keeps_files: "snd (FileStorage_get rt key s fs) = fs"
  by (simp add: FileStorage_get_def Let_def split: Result.splits option.splits)

lemma Map_get_set: "Map_get (Map_set m key data) key = data"
  by (simp add: Map_get_def Map_set_def update_conv')

lemma Map_get_absent: "\<not> Map_has m key \<Longrightarrow> Map_get m key = JUndefined"
  by (simp add: Map_get_def Map_has_def)

section \<open>Cache promotion on a read through the dual store\<close>

text \<open>
  Claim C2. With default settings (left out, or the default object), when a key is absent
  from the in-memory layer and the file layer's \<open>get\<close> resolves to a value \<open>v\<close>, the dual
  store's \<open>get\<close> resolves to \<open>v\<close> and leaves the in-memory layer holding \<open>v\<close> at the key:
  a read of the in-memory store alone answers \<open>v\<close>. The file system is untouched.
\<close>

theorem DualStorage_get_promotes:
  assumes absent: "\<not> Map_has (dual_cache st) key"
    and settings: "or_default s = DEFAULT_REQUEST_SETTINGS"
    and files: "fst (FileStorage_get rt key s (dual_files st)) = Inr v"
    and defined: "v \<noteq> JUndefined"
  shows "DualStorage_get rt key s st =
           (Inr v, \<lparr> dual_cache = Map_set (dual_cache st) key v, dual_files = dual_files st \<rparr>)
       \<and> CacheStorage_get key s (dual_cache (snd (DualStorage_get rt key s st))) = v"
proof -
  have same: "FileStorage_get rt key (Some (or_default s)) (dual_files st)
                = FileStorage_get rt key s (dual_files st)"
    by (simp add: FileStorage_get_def)
  have read: "FileStorage_get rt key s (dual_files st) = (Inr v, dual_files st)"
    using files FileStorage_get_keeps_files [of rt key s "dual_files st"]
    by (cases "FileStorage_get rt key s (dual_files st)") simp
  have miss: "CacheStorage_get key (Some (or_default s)) (dual_cache st) = JUndefined"
    using absent by (simp add: CacheStorage_get_def Let_def Map_get_absent)
  have stored: "snd (CacheStorage_set key v (Some (or_default s)) (dual_cache st))
                  = Map_set (dual_cache st) key v"
    by (simp add: CacheStorage_set_def Let_def settings DEFAULT_REQUEST_SETTINGS_def)
  have result: "DualStorage_get rt key s st =
           (Inr v, \<lparr> dual_cache = Map_set (dual_cache st) key v, dual_files = dual_files st \<rparr>)"
    using defined
    by (simp add: DualStorage_get_def Let_def same read miss stored nullish_coalesce_def)
  have "CacheStorage_get key s (Map_set (dual_cache st) key v) = v"
    by (simp add: CacheStorage_get_def settings DEFAULT_REQUEST_SETTINGS_def Map_get_set)
  with result show ?thesis by simp
qed

theorem DualStorage_get_promotes_witness:
  "\<not> Map_has [] ''a''
   \<and> fst (FileStorage_get example_runtime ''a'' None
            [([''data''], Directory), ([''data'', ''a.json''], File ''1'')]) = Inr (JNum 1)
   \<and> DualStorage_get example_runtime ''a'' None
        \<lparr> dual_cache = [],
          dual_files = [([''data''], Directory), ([''data'', ''a.json''], File ''1'')] \<rparr>
       = (Inr (JNum 1),
          \<lparr> dual_cache = [(''a'', JNum 1)],
            dual_files = [([''data''], Directory), ([''data'', ''a.json''], File ''1'')] \<rparr>)
   \<and> CacheStorage_get ''a'' None [(''a'', JNum 1)] = JNum 1"
proof -
  let ?fs = "[([''data''], Directory), ([''data'', ''a.json''], File ''1'')]"
  let ?st = "\<lparr> dual_cache = [], dual_files = ?fs \<rparr>"
  have absent: "\<not> Map_has (dual_cache ?st) ''a''"
    by (simp add: Map_has_def)
  have files: "fst (FileStorage_get example_runtime ''a'' None (dual_files ?st)) = Inr (JNum 1)"
    by code_simp
  have "DualStorage_get example_runtime ''a'' None ?st =
           (Inr (JNum 1),
            \<lparr> dual_cache = Map_set (dual_cache ?st) ''a'' (JNum 1), dual_files = dual_files ?st \<rparr>)
       \<and> CacheStorage_get ''a'' None
            (dual_cache (snd (DualStorage_get example_runtime ''a'' None ?st))) = JNum 1"
    by (rule DualStorage_get_promotes [OF absent _ files]) simp_all
  then show ?thesis
    using absent files
    by (simp add: Map_set_def CacheStorage_get_def Map_get_def Let_def DEFAULT_REQUEST_SETTINGS_def)
qed

section \<open>A write through the dual store\<close>




section \<open>Deleting a key\<close>

lemma readFile_after_rm: "success (autoCatch (FS_readFile path (snd (FS_rm path fs)))) = False"
  by (simp add: FS_readFile_def FS_rm_def Let_def delete_conv' split: option.splits node.splits)

lemma rm_missing:
  "success (autoCatch (FS_readFile path fs)) = False \<Longrightarrow> FS_rm path fs = (Inl IOError, fs)"
  by (simp add: FS_readFile_def FS_rm_def Let_def split: option.splits node.splits)

lemma CacheStorage_del_then_has:
  "or_default s = DEFAULT_REQUEST_SETTINGS \<Longrightarrow>
   CacheStorage_has key s (snd (CacheStorage_del key s c)) = False"
  by (simp add: CacheStorage_has_def CacheStorage_del_def Map_delete_def Map_has_def Let_def
      delete_conv' DEFAULT_REQUEST_SETTINGS_def)

lemma FileStorage_del_then_has:
  "or_default s = DEFAULT_REQUEST_SETTINGS \<Longrightarrow>
   fst (FileStorage_has key s (snd (FileStorage_del key s fs))) = Inr False"
  by (simp add: FileStorage_has_def FileStorage_del_def Let_def readFile_after_rm
      DEFAULT_REQUEST_SETTINGS_def)

lemma FileStorage_del_absent:
  "or_default s = DEFAULT_REQUEST_SETTINGS \<Longrightarrow>
   fst (FileStorage_has key s fs) = Inr False \<Longrightarrow> FileStorage_del key s fs = (Inr False, fs)"
  by (simp add: FileStorage_has_def FileStorage_del_def Let_def rm_missing
      DEFAULT_REQUEST_SETTINGS_def)

lemma CacheStorage_del_absent:
  "or_default s = DEFAULT_REQUEST_SETTINGS \<Longrightarrow>
   \<not> CacheStorage_has key s c \<Longrightarrow> CacheStorage_del key s c = (False, c)"
  by (simp add: CacheStorage_has_def CacheStorage_del_def Map_delete_def Map_has_def Let_def
      DEFAULT_REQUEST_SETTINGS_def map_of_eq_None_iff)

lemma CacheStorage_del_reports_presence:
  "or_default s = DEFAULT_REQUEST_SETTINGS \<Longrightarrow>
   fst (CacheStorage_del key s c) = CacheStorage_has key s c"
  by (simp add: CacheStorage_del_def CacheStorage_has_def Map_delete_def Let_def
      DEFAULT_REQUEST_SETTINGS_def)

lemma DualStorage_del_state:
  "snd (DualStorage_del key s st) =
     \<lparr> dual_cache = snd (CacheStorage_del key (Some (or_default s)) (dual_cache st)),
       dual_files = snd (FileStorage_del key (Some (or_default s)) (dual_files st)) \<rparr>"
  by (simp add: DualStorage_del_def Let_def split: prod.splits sum.splits)

lemma DualStorage_del_then_has:
  assumes d: "or_default s = DEFAULT_REQUEST_SETTINGS"
  shows "fst (DualStorage_has key s (snd (DualStorage_del key s st))) = Inr False"
proof -
  have d': "or_default (Some (or_default s)) = DEFAULT_REQUEST_SETTINGS"
    using d by simp
  have c: "CacheStorage_has key (Some (or_default s))
             (snd (CacheStorage_del key (Some (or_default s)) (dual_cache st))) = False"
    using d' by (rule CacheStorage_del_then_has)
  have f: "fst (FileStorage_has key (Some (or_default s))
             (snd (FileStorage_del key (Some (or_default s)) (dual_files st)))) = Inr False"
    using d' by (rule FileStorage_del_then_has)
  show ?thesis
    using f by (auto simp add: DualStorage_has_def DualStorage_del_state Let_def c split: prod.splits)
qed

lemma DualStorage_del_absent:
  assumes d: "or_default s = DEFAULT_REQUEST_SETTINGS"
    and absent: "fst (DualStorage_has key s st) = Inr False"
  shows "DualStorage_del key s st = (Inr False, st)"
proof -
  have d': "or_default (Some (or_default s)) = DEFAULT_REQUEST_SETTINGS"
    using d by simp
  from absent have c: "\<not> CacheStorage_has key (Some (or_default s)) (dual_cache st)"
    by (auto simp add: DualStorage_has_def Let_def split: if_splits)
  with absent have f: "fst (FileStorage_has key (Some (or_default s)) (dual_files st)) = Inr False"
    by (auto simp add: DualStorage_has_def Let_def split: if_splits prod.splits)
  have "CacheStorage_del key (Some (or_default s)) (dual_cache st) = (False, dual_cache st)"
    using d' c by (rule CacheStorage_del_absent)
  moreover have "FileStorage_del key (Some (or_default s)) (dual_files st) = (Inr False, dual_files st)"
    using d' f by (rule FileStorage_del_absent)
  ultimately show ?thesis
    by (simp add: DualStorage_del_def Let_def d DEFAULT_REQUEST_SETTINGS_def)
qed

text \<open>
  Claim C4, as amended. With default settings, on every backend, \<open>del\<close> of a key that
  \<open>has\<close> reports absent answers false and leaves the storage as it was; and on every
  backend and for every key, present or absent, \<open>has\<close> answers false after \<open>del\<close>. In
  particular the in-memory store's \<open>del\<close> answers true exactly when the key was present:
  it answers what \<open>Map.delete\<close> answers, not whether the operation was permitted.
\<close>

theorem del_of_absent_key:
  assumes d: "or_default s = DEFAULT_REQUEST_SETTINGS"
  shows "(fst (CacheStorage_del key s c) = CacheStorage_has key s c
          \<and> (\<not> CacheStorage_has key s c \<longrightarrow> CacheStorage_del key s c = (False, c))
          \<and> CacheStorage_has key s (snd (CacheStorage_del key s c)) = False)
       \<and> ((fst (FileStorage_has key s fs) = Inr False \<longrightarrow> FileStorage_del key s fs = (Inr False, fs))
          \<and> fst (FileStorage_has key s (snd (FileStorage_del key s fs))) = Inr False)
       \<and> ((fst (DualStorage_has key s st) = Inr False \<longrightarrow> DualStorage_del key s st = (Inr False, st))
          \<and> fst (DualStorage_has key s (snd (DualStorage_del key s st))) = Inr False)"
  using d
  by (simp add: CacheStorage_del_reports_presence CacheStorage_del_absent CacheStorage_del_then_has
      FileStorage_del_absent FileStorage_del_then_has DualStorage_del_absent DualStorage_del_then_has)

theorem del_of_absent_key_witness:
  "or_default None = DEFAULT_REQUEST_SETTINGS
   \<and> CacheStorage_has ''a'' None [(''b'', JNum 1)] = False
   \<and> CacheStorage_del ''a'' None [(''b'', JNum 1)] = (False, [(''b'', JNum 1)])
   \<and> CacheStorage_has ''b'' None [(''b'', JNum 1)] = True
   \<and> fst (CacheStorage_del ''b'' None [(''b'', JNum 1)]) = True
   \<and> fst (FileStorage_has ''a'' None
            [([''data''], Directory), ([''data'', ''b.json''], File ''1'')]) = Inr False
   \<and> FileStorage_del ''a'' None [([''data''], Directory), ([''data'', ''b.json''], File ''1'')]
       = (Inr False, [([''data''], Directory), ([''data'', ''b.json''], File ''1'')])
   \<and> fst (DualStorage_has ''a'' None
            \<lparr> dual_cache = [(''b'', JNum 1)],
              dual_files = [([''data''], Directory), ([''data'', ''b.json''], File ''1'')] \<rparr>)
       = Inr False
   \<and> DualStorage_del ''a'' None
        \<lparr> dual_cache = [(''b'', JNum 1)],
          dual_files = [([''data''], Directory), ([''data'', ''b.json''], File ''1'')] \<rparr>
       = (Inr False,
          \<lparr> dual_cache = [(''b'', JNum 1)],
            dual_files = [([''data''], Directory), ([''data'', ''b.json''], File ''1'')] \<rparr>)"
proof -
  let ?c = "[(''b'', JNum 1)]"
  let ?fs = "[([''data''], Directory), ([''data'', ''b.json''], File ''1'')]"
  let ?st = "\<lparr> dual_cache = ?c, dual_files = ?fs \<rparr>"
  have d: "or_default None = DEFAULT_REQUEST_SETTINGS"
    by simp
  have c: "CacheStorage_has ''a'' None ?c = False"
    by code_simp
  have f: "fst (FileStorage_has ''a'' None ?fs) = Inr False"
    by code_simp
  have b: "fst (DualStorage_has ''a'' None ?st) = Inr False"
    by code_simp
  have p: "CacheStorage_has ''b'' None ?c = True"
    by code_simp
  have present: "fst (CacheStorage_del ''b'' None ?c) = True"
    using del_of_absent_key [OF d, of "''b''" ?c ?fs ?st] p by simp
  show ?thesis
    using del_of_absent_key [OF d, of "''a''" ?c ?fs ?st] c f b p present by simp
qed

text \<open>
  Claim C4 as stated fails: on an empty in-memory store, \<open>del\<close> of the absent key \<open>a\<close> with
  default settings answers false, not true.
\<close>

theorem del_of_absent_key_counterexample:
  "CacheStorage_has ''a'' None [] = False \<and> fst (CacheStorage_del ''a'' None []) = False"
  by code_simp

section \<open>Reading back what was written\<close>

lemma CacheStorage_set_then_get:
  "\<not> flag (ignore_cache (or_default s)) \<Longrightarrow> \<not> flag (deny_write (or_default s)) \<Longrightarrow>
   \<not> flag (deny_read (or_default s)) \<Longrightarrow>
   CacheStorage_get key s (snd (CacheStorage_set key v s c)) = v"
  by (simp add: CacheStorage_get_def CacheStorage_set_def Let_def Map_get_set)

lemma writeFile_success:
  "success (autoCatch (fst (FS_writeFile path data fs))) \<Longrightarrow>
   \<exists>raw. data = Some raw \<and> FS_readFile path (snd (FS_writeFile path data fs)) = Inr raw"
  by (cases data)
    (auto simp add: FS_writeFile_def FS_readFile_def Let_def update_conv' split: if_splits)

lemma FileStorage_set_success:
  assumes ok: "fst (FileStorage_set rt key v s fs) = Inr True"
  shows "\<not> flag (ignore_files (or_default s)) \<and> \<not> flag (deny_write (or_default s))
       \<and> (\<exists>raw. (if data_type (or_default s) = Some ''json'' then JSON_stringify rt v
                  else map_sum id Some (to_string v)) = Inr (Some raw)
             \<and> FS_readFile (into_file_path key (data_type (or_default s)) None)
                  (snd (FileStorage_set rt key v s fs)) = Inr raw)"
proof -
  let ?path = "into_file_path key (data_type (or_default s)) None"
  let ?fs1 = "snd (FS_mkdir (slice_to ?path (lastIndexOf ?path CHR ''/'')) fs)"
  let ?raw = "if data_type (or_default s) = Some ''json'' then JSON_stringify rt v
              else map_sum id Some (to_string v)"
  from ok have allowed: "\<not> flag (ignore_files (or_default s))" "\<not> flag (deny_write (or_default s))"
    by (auto simp add: FileStorage_set_def Let_def split: if_splits)
  from ok allowed obtain data where data: "?raw = Inr data"
    by (cases ?raw) (simp_all add: FileStorage_set_def Let_def)
  with ok allowed have result: "FileStorage_set rt key v s fs
      = (Inr (success (autoCatch (fst (FS_writeFile ?path data ?fs1)))),
         snd (FS_writeFile ?path data ?fs1))"
    by (simp add: FileStorage_set_def Let_def)
  with ok have "success (autoCatch (fst (FS_writeFile ?path data ?fs1)))"
    by simp
  then obtain raw where "data = Some raw"
    and "FS_readFile ?path (snd (FS_writeFile ?path data ?fs1)) = Inr raw"
    using writeFile_success by blast
  with data result allowed show ?thesis
    by simp
qed

lemma FileStorage_set_then_get_json:
  assumes ok: "fst (FileStorage_set rt key v s fs) = Inr True"
    and readable: "\<not> flag (deny_read (or_default s))"
    and json: "data_type (or_default s) = Some ''json''"
  shows "\<exists>raw. JSON_stringify rt v = Inr (Some raw)
           \<and> fst (FileStorage_get rt key s (snd (FileStorage_set rt key v s fs)))
               = (case JSON_parse rt raw of None \<Rightarrow> Inl SyntaxError | Some v' \<Rightarrow> Inr v')"
proof -
  from FileStorage_set_success [OF ok] json
  obtain raw where allowed: "\<not> flag (ignore_files (or_default s))"
    and raw: "JSON_stringify rt v = Inr (Some raw)"
    and read: "FS_readFile (into_file_path key (data_type (or_default s)) None)
                 (snd (FileStorage_set rt key v s fs)) = Inr raw"
    by auto
  have "fst (FileStorage_get rt key s (snd (FileStorage_set rt key v s fs)))
               = (case JSON_parse rt raw of None \<Rightarrow> Inl SyntaxError | Some v' \<Rightarrow> Inr v')"
    using allowed readable json read
    by (simp add: FileStorage_get_def Let_def split: option.splits)
  with raw show ?thesis by blast
qed

lemma FileStorage_set_then_get_raw:
  assumes ok: "fst (FileStorage_set rt key v s fs) = Inr True"
    and readable: "\<not> flag (deny_read (or_default s))"
    and raw: "data_type (or_default s) \<noteq> Some ''json''"
  shows "\<exists>printed. to_string v = Inr printed
           \<and> fst (FileStorage_get rt key s (snd (FileStorage_set rt key v s fs)))
               = Inr (JStr printed)"
proof -
  from FileStorage_set_success [OF ok] raw
  obtain printed where allowed: "\<not> flag (ignore_files (or_default s))"
    and printed: "map_sum id Some (to_string v) = Inr (Some printed)"
    and read: "FS_readFile (into_file_path key (data_type (or_default s)) None)
                 (snd (FileStorage_set rt key v s fs)) = Inr printed"
    by auto
  from printed have "to_string v = Inr printed"
    by (cases "to_string v") simp_all
  moreover have "fst (FileStorage_get rt key s (snd (FileStorage_set rt key v s fs)))
               = Inr (JStr printed)"
    using allowed readable raw read
    by (simp add: FileStorage_get_def Let_def)
  ultimately show ?thesis by blast
qed

lemma DualStorage_set_cache:
  "dual_cache (snd (DualStorage_set rt key v s st))
     = snd (CacheStorage_set key v (Some (or_default s)) (dual_cache st))"
  by (simp add: DualStorage_set_def Let_def split: prod.splits sum.splits)

lemma DualStorage_set_then_get:
  assumes "\<not> flag (ignore_cache (or_default s))" "\<not> flag (deny_write (or_default s))"
    "\<not> flag (deny_read (or_default s))" "v \<noteq> JUndefined" "v \<noteq> JNull"
  shows "fst (DualStorage_get rt key s (snd (DualStorage_set rt key v s st))) = Inr v"
proof -
  have "CacheStorage_get key (Some (or_default s))
          (snd (CacheStorage_set key v (Some (or_default s)) (dual_cache st))) = v"
    using assms by (intro CacheStorage_set_then_get) simp_all
  then show ?thesis
    using assms
    by (simp add: DualStorage_get_def Let_def DualStorage_set_cache nullish_coalesce_def)
qed

text \<open>
  Claim C1, as amended. \<open>set(k, v)\<close> followed by \<open>get(k)\<close> with the same settings, reads
  and writes neither denied nor ignored:
  \<^item> the in-memory store answers \<open>v\<close>, for every value and data type;
  \<^item> the file-system store, when \<open>set\<close> reported success, answers for the data type
    \<open>json\<close> what \<open>JSON.parse\<close> makes of \<open>JSON.stringify(v)\<close> (so \<open>v\<close> where JSON
    round-trips it), and for any other data type the string \<open>`${v}`\<close> (so \<open>v\<close> where
    \<open>v\<close> is a string);
  \<^item> the dual store answers \<open>v\<close>, for every data type and every value but \<open>undefined\<close>
    and \<open>null\<close>.
\<close>

theorem set_then_get:
  "(\<not> flag (ignore_cache (or_default s)) \<and> \<not> flag (deny_write (or_default s))
      \<and> \<not> flag (deny_read (or_default s)) \<longrightarrow>
        CacheStorage_get key s (snd (CacheStorage_set key v s c)) = v)
   \<and> (fst (FileStorage_set rt key v s fs) = Inr True \<and> \<not> flag (deny_read (or_default s))
      \<and> data_type (or_default s) = Some ''json'' \<longrightarrow>
        (\<exists>raw. JSON_stringify rt v = Inr (Some raw)
           \<and> fst (FileStorage_get rt key s (snd (FileStorage_set rt key v s fs)))
               = (case JSON_parse rt raw of None \<Rightarrow> Inl SyntaxError | Some v' \<Rightarrow> Inr v')))
   \<and> (fst (FileStorage_set rt key v s fs) = Inr True \<and> \<not> flag (deny_read (or_default s))
      \<and> data_type (or_default s) = Some ''json''
      \<and> JSON_stringify rt v = Inr (Some text) \<and> JSON_parse rt text = Some v \<longrightarrow>
        fst (FileStorage_get rt key s (snd (FileStorage_set rt key v s fs))) = Inr v)
   \<and> (fst (FileStorage_set rt key v s fs) = Inr True \<and> \<not> flag (deny_read (or_default s))
      \<and> data_type (or_default s) \<noteq> Some ''json'' \<longrightarrow>
        (\<exists>printed. to_string v = Inr printed
           \<and> fst (FileStorage_get rt key s (snd (FileStorage_set rt key v s fs)))
               = Inr (JStr printed)))
   \<and> (fst (FileStorage_set rt key v s fs) = Inr True \<and> \<not> flag (deny_read (or_default s))
      \<and> data_type (or_default s) \<noteq> Some ''json'' \<and> v = JStr x \<longrightarrow>
        fst (FileStorage_get rt key s (snd (FileStorage_set rt key v s fs))) = Inr v)
   \<and> (\<not> flag (ignore_cache (or_default s)) \<and> \<not> flag (deny_write (or_default s))
      \<and> \<not> flag (deny_read (or_default s)) \<and> v \<noteq> JUndefined \<and> v \<noteq> JNull \<longrightarrow>
        fst (DualStorage_get rt key s (snd (DualStorage_set rt key v s st))) = Inr v)"
proof (intro conjI impI)
  assume "\<not> flag (ignore_cache (or_default s)) \<and> \<not> flag (deny_write (or_default s))
      \<and> \<not> flag (deny_read (or_default s))"
  then show "CacheStorage_get key s (snd (CacheStorage_set key v s c)) = v"
    by (simp add: CacheStorage_set_then_get)
next
  assume "fst (FileStorage_set rt key v s fs) = Inr True \<and> \<not> flag (deny_read (or_default s))
      \<and> data_type (or_default s) = Some ''json''"
  then show "\<exists>raw. JSON_stringify rt v = Inr (Some raw)
           \<and> fst (FileStorage_get rt key s (snd (FileStorage_set rt key v s fs)))
               = (case JSON_parse rt raw of None \<Rightarrow> Inl SyntaxError | Some v' \<Rightarrow> Inr v')"
    by (simp add: FileStorage_set_then_get_json)
next
  assume a: "fst (FileStorage_set rt key v s fs) = Inr True \<and> \<not> flag (deny_read (or_default s))
      \<and> data_type (or_default s) = Some ''json''
      \<and> JSON_stringify rt v = Inr (Some text) \<and> JSON_parse rt text = Some v"
  then obtain raw where "JSON_stringify rt v = Inr (Some raw)"
    and "fst (FileStorage_get rt key s (snd (FileStorage_set rt key v s fs)))
               = (case JSON_parse rt raw of None \<Rightarrow> Inl SyntaxError | Some v' \<Rightarrow> Inr v')"
    using FileStorage_set_then_get_json [of rt key v s fs] by blast
  with a show "fst (FileStorage_get rt key s (snd (FileStorage_set rt key v s fs))) = Inr v"
    by simp
next
  assume "fst (FileStorage_set rt key v s fs) = Inr True \<and> \<not> flag (deny_read (or_default s))
      \<and> data_type (or_default s) \<noteq> Some ''json''"
  then show "\<exists>printed. to_string v = Inr printed
           \<and> fst (FileStorage_get rt key s (snd (FileStorage_set rt key v s fs)))
               = Inr (JStr printed)"
    by (simp add: FileStorage_set_then_get_raw)
next
  assume a: "fst (FileStorage_set rt key v s fs) = Inr True \<and> \<not> flag (deny_read (or_default s))
      \<and> data_type (or_default s) \<noteq> Some ''json'' \<and> v = JStr x"
  then obtain printed where "to_string v = Inr printed"
    and "fst (FileStorage_get rt key s (snd (FileStorage_set rt key v s fs))) = Inr (JStr printed)"
    using FileStorage_set_then_get_raw [of rt key v s fs] by blast
  with a show "fst (FileStorage_get rt key s (snd (FileStorage_set rt key v s fs))) = Inr v"
    by auto
next
  assume "\<not> flag (ignore_cache (or_default s)) \<and> \<not> flag (deny_write (or_default s))
      \<and> \<not> flag (deny_read (or_default s)) \<and> v \<noteq> JUndefined \<and> v \<noteq> JNull"
  then show "fst (DualStorage_get rt key s (snd (DualStorage_set rt key v s st))) = Inr v"
    by (simp add: DualStorage_set_then_get)
qed

theorem set_then_get_witness:
  "CacheStorage_get ''a'' None (snd (CacheStorage_set ''a'' (JNum 1) None [])) = JNum 1
   \<and> fst (FileStorage_set example_runtime ''a'' (JNum 1) None []) = Inr True
   \<and> fst (FileStorage_get example_runtime ''a'' None
            (snd (FileStorage_set example_runtime ''a'' (JNum 1) None []))) = Inr (JNum 1)
   \<and> fst (FileStorage_set example_runtime ''note'' (JStr ''hello'') (Some txt_settings) [])
       = Inr True
   \<and> fst (FileStorage_get example_runtime ''note'' (Some txt_settings)
            (snd (FileStorage_set example_runtime ''note'' (JStr ''hello'') (Some txt_settings) [])))
       = Inr (JStr ''hello'')
   \<and> fst (DualStorage_get example_runtime ''a'' None
            (snd (DualStorage_set example_runtime ''a'' (JNum 1) None
                    \<lparr> dual_cache = [], dual_files = [] \<rparr>))) = Inr (JNum 1)"
proof -
  have json_ok: "fst (FileStorage_set example_runtime ''a'' (JNum 1) None []) = Inr True"
    by code_simp
  have txt_ok:
    "fst (FileStorage_set example_runtime ''note'' (JStr ''hello'') (Some txt_settings) []) = Inr True"
    by code_simp
  have codec: "JSON_stringify example_runtime (JNum 1) = Inr (Some ''1'')"
    "JSON_parse example_runtime ''1'' = Some (JNum 1)"
    by (simp_all add: example_runtime_def)
  have flags: "\<not> flag (ignore_cache (or_default None))" "\<not> flag (deny_write (or_default None))"
    "\<not> flag (deny_read (or_default None))" "data_type (or_default None) = Some ''json''"
    "\<not> flag (deny_read (or_default (Some txt_settings)))"
    "data_type (or_default (Some txt_settings)) \<noteq> Some ''json''"
    by (simp_all add: DEFAULT_REQUEST_SETTINGS_def txt_settings_def)
  show ?thesis
    using set_then_get [of None "''a''" "JNum 1" "[]" example_runtime "[]" "''1''" "''''"
        "\<lparr> dual_cache = [], dual_files = [] \<rparr>"]
      set_then_get [of "Some txt_settings" "''note''" "JStr ''hello''" "[]" example_runtime "[]"
        "''''" "''hello''" "\<lparr> dual_cache = [], dual_files = [] \<rparr>"]
      json_ok txt_ok codec flags
    by simp
qed

text \<open>
  Claim C1 as stated fails: with the data type \<open>txt\<close>, the file-system store writes the
  number \<open>5\<close> at the key \<open>note\<close> as the text \<open>5\<close>, reports success, and \<open>get\<close> answers
  the string \<open>"5"\<close>, not the number.
\<close>

theorem set_then_get_counterexample:
  "fst (FileStorage_set example_runtime ''note'' (JNum 5) (Some txt_settings) []) = Inr True
   \<and> fst (FileStorage_get example_runtime ''note'' (Some txt_settings)
           (snd (FileStorage_set example_runtime ''note'' (JNum 5) (Some txt_settings) [])))
       = Inr (JStr ''5'')
   \<and> JStr ''5'' \<noteq> JNum 5"
  by code_simp

section \<open>Denied reads\<close>

text \<open>
  Claim C5 does not hold of the code. \<open>CacheStorage.has\<close> tests \<open>ignore_cache\<close> only:
  with \<open>deny_read\<close> set it still answers true for a present key, and so does
  \<open>DualStorage.has\<close>, while \<open>CacheStorage.get\<close>, \<open>CacheStorage.pairs\<close> and
  \<open>FileStorage.has\<close> answer as for an absent key.
\<close>

theorem has_under_deny_read:
  "CacheStorage_has ''a'' (Some deny_read_settings) [(''a'', JNum 1)] = True
   \<and> CacheStorage_get ''a'' (Some deny_read_settings) [(''a'', JNum 1)] = JUndefined
   \<and> CacheStorage_pairs [] (Some deny_read_settings) [(''a'', JNum 1)] = []
   \<and> fst (FileStorage_has ''a'' (Some deny_read_settings)
            [([''data''], Directory), ([''data'', ''a.json''], File ''1'')]) = Inr False
   \<and> fst (DualStorage_has ''a'' (Some deny_read_settings)
            \<lparr> dual_cache = [(''a'', JNum 1)], dual_files = [] \<rparr>) = Inr True"
  by code_simp

section \<open>Denied writes through \<open>modify\<close>\<close>

text \<open>
  Claim C6 does not hold of the code. \<open>modify\<close> calls \<open>set\<close> without the settings, so
  the write runs under the default settings: with \<open>deny_write\<close> set, \<open>modify\<close> of a
  present key answers true and replaces the stored value, on the in-memory store and on
  the file-system store, while \<open>set\<close> with the same settings is refused.
\<close>

theorem modify_under_deny_write:
  "SyncStorage_modify CacheStorage ''a'' (\<lambda>data key st. (Inr (JNum 2), st))
       (Some deny_write_settings) [(''a'', JNum 1)]
     = (Inr True, [(''a'', JNum 2)])
   \<and> CacheStorage_set ''a'' (JNum 2) (Some deny_write_settings) [(''a'', JNum 1)]
     = (False, [(''a'', JNum 1)])
   \<and> AsyncStorage_modify (FileStorage example_runtime) ''a'' (\<lambda>data key st. (Inr (JNum 2), st))
       (Some deny_write_settings) [([''data''], Directory), ([''data'', ''a.json''], File ''1'')]
     = (Inr True, [([''data''], Directory), ([''data'', ''a.json''], File ''2'')])"
  by code_simp

section \<open>\<open>get_all\<close>\<close>

text \<open>
  Claim C7 does not hold of the code. \<open>get_all\<close> keeps the values that are truthy: the
  number \<open>0\<close> stored at the present key \<open>a\<close> is dropped from the result, on the
  in-memory store and on the file-system store.
\<close>

theorem get_all_drops_falsy_value:
  "CacheStorage_has ''a'' None [(''a'', JNum 0), (''b'', JNum 1)] = True
   \<and> CacheStorage_get ''a'' None [(''a'', JNum 0), (''b'', JNum 1)] = JNum 0
   \<and> SyncStorage_get_all CacheStorage [''a'', ''b''] None [(''a'', JNum 0), (''b'', JNum 1)]
       = [JNum 1]
   \<and> fst (FileStorage_get example_runtime ''a'' None
            [([''data''], Directory), ([''data'', ''a.json''], File ''0''),
             ([''data'', ''b.json''], File ''1'')]) = Inr (JNum 0)
   \<and> fst (AsyncStorage_get_all (FileStorage example_runtime) [''a'', ''b''] None
            [([''data''], Directory), ([''data'', ''a.json''], File ''0''),
             ([''data'', ''b.json''], File ''1'')]) = Inr [JNum 1]"
  by code_simp

section \<open>\<open>FileStorage.pairs\<close>\<close>

text \<open>
  Claim C8 does not hold of the code. \<open>FileStorage.pairs\<close> lists the plain files of the
  directory and skips its subdirectories, but the key of an entry is the file's path
  under the data root, extension included: for the directory \<open>users\<close> the key is
  \<open>data/users/bob.json\<close>, which does not start with \<open>users\<close>, and \<open>get\<close> of that key
  looks under \<open>data/data/\<close> and answers \<open>undefined\<close>, not the stored value that \<open>get\<close> of
  \<open>users/bob\<close> answers.
\<close>

theorem FileStorage_pairs_keys:
  "fst (FileStorage_pairs example_runtime ''users'' None
          [([''data''], Directory), ([''data'', ''users''], Directory),
           ([''data'', ''users'', ''bob.json''], File ''1''),
           ([''data'', ''users'', ''old''], Directory),
           ([''data'', ''users'', ''old'', ''ann.json''], File ''2'')])
     = Inr [(''data/users/bob.json'', JUndefined)]
   \<and> startsWith ''data/users/bob.json'' ''users'' = False
   \<and> fst (FileStorage_get example_runtime ''users/bob'' None
          [([''data''], Directory), ([''data'', ''users''], Directory),
           ([''data'', ''users'', ''bob.json''], File ''1''),
           ([''data'', ''users'', ''old''], Directory),
           ([''data'', ''users'', ''old'', ''ann.json''], File ''2'')])
     = Inr (JNum 1)"
  by code_simp

section \<open>\<open>DualStorage.pairs\<close>\<close>

text \<open>
  No two of the arrays share an address, so the \<open>Set\<close> keeps every one of them: the
  result is the in-memory layer's entries followed by the file layer's.
\<close>

lemma foldl_Set_add_allocate: "foldl Set_add [] (allocate xs) = allocate xs"
proof (induction xs rule: rev_induct)
  case Nil
  show ?case by (simp add: allocate_def)
next
  case (snoc x xs)
  have split: "allocate (xs @ [x]) = allocate xs @ [(length xs, x)]"
    by (simp add: allocate_def)
  have fresh: "length xs \<notin> set (map fst (allocate xs))"
    by (simp add: allocate_def)
  show ?case
    using snoc.IH fresh by (simp add: split)
qed

lemma spread_Set_allocate: "spread_Set (allocate xs) = xs"
  by (simp add: spread_Set_def foldl_Set_add_allocate) (simp add: allocate_def)

lemma DualStorage_pairs_concatenates:
  "FileStorage_pairs rt dir (Some (or_default s)) (dual_files st) = (Inr from_files, fs') \<Longrightarrow>
   fst (DualStorage_pairs rt dir s st)
     = Inr (CacheStorage_pairs dir (Some (or_default s)) (dual_cache st) @ from_files)"
  by (simp add: DualStorage_pairs_def Let_def spread_Set_allocate)

text \<open>
  Claim C9 does not hold of the code. The \<open>Set\<close> of \<open>DualStorage.pairs\<close> holds arrays,
  which it compares by reference, so it removes nothing. After \<open>set("data/x", 1)\<close> and
  \<open>set("data/data/x.json", 2)\<close>, \<open>pairs("data")\<close> lists the key \<open>data/data/x.json\<close>
  twice, once from each layer. After \<open>set("users/bob", 1)\<close>, \<open>pairs("users")\<close> has two
  entries for the one stored key, under the two layers' names for it.
\<close>

theorem DualStorage_pairs_repeats_key:
  "snd (DualStorage_set example_runtime ''data/data/x.json'' (JNum 2) None
         (snd (DualStorage_set example_runtime ''data/x'' (JNum 1) None
                 \<lparr> dual_cache = [], dual_files = [] \<rparr>)))
     = \<lparr> dual_cache = [(''data/x'', JNum 1), (''data/data/x.json'', JNum 2)],
         dual_files =
           [([''data''], Directory), ([''data'', ''data''], Directory),
            ([''data'', ''data'', ''x.json''], File ''1''),
            ([''data'', ''data'', ''data''], Directory),
            ([''data'', ''data'', ''data'', ''x.json''], File ''2'')] \<rparr>
   \<and> fst (DualStorage_pairs example_runtime ''data'' None
         \<lparr> dual_cache = [(''data/x'', JNum 1), (''data/data/x.json'', JNum 2)],
           dual_files =
             [([''data''], Directory), ([''data'', ''data''], Directory),
              ([''data'', ''data'', ''x.json''], File ''1''),
              ([''data'', ''data'', ''data''], Directory),
              ([''data'', ''data'', ''data'', ''x.json''], File ''2'')] \<rparr>)
     = Inr [(''data/x'', JNum 1), (''data/data/x.json'', JNum 2), (''data/data/x.json'', JNum 2)]
   \<and> fst (DualStorage_pairs example_runtime ''users'' None
         (snd (DualStorage_set example_runtime ''users/bob'' (JNum 1) None
                 \<lparr> dual_cache = [], dual_files = [] \<rparr>)))
     = Inr [(''users/bob'', JNum 1), (''data/users/bob.json'', JUndefined)]"
  by code_simp

end
